theory Spec2Isabelle
  imports Main "HOL-Library.Word"
begin

section \<open>JavaScript values, errors and promises\<close>

text \<open>An \<^verbatim>\<open>Error\<close> object; \<open>message\<close> is \<open>None\<close> when the property is undefined.\<close>

datatype jserror = JsError (message: "string option")

text \<open>
  The values that travel through \<^verbatim>\<open>superwstest.js\<close>: primitives, byte arrays
  (\<^verbatim>\<open>Uint8Array\<close>), arrays, and objects. \<open>JNum\<close> stands for the safe integers
  (\<^verbatim>\<open>Number.isSafeInteger\<close>), the numbers that are rendered by their decimal digits.
  \<open>JObj\<close> is an object with the prototype of an object literal and data properties of
  its own. \<open>JOther\<close> is any other object, given by what converting it to a string does:
  the string that a \<^verbatim>\<open>toString\<close> of its own returns, or the error that is thrown
  (by its \<^verbatim>\<open>toString\<close>, or for want of one, as for \<^verbatim>\<open>Object.create(null)\<close>).
\<close>

datatype jsval =
    JUndefined
  | JNull
  | JBool bool
  | JNum int
  | JBigInt int
  | JStr string
  | JBytes "8 word list"
  | JArr "jsval list"
  | JObj "(string \<times> jsval) list"
  | JOther "jserror + string"

text \<open>
  A promise is described by the instant (in milliseconds of logical time) at which it
  settles and by what it settles to; \<open>Never\<close> is a promise that stays pending.
\<close>

datatype 'a settlement = Fulfilled 'a | Failed jserror

datatype 'a promise = Never | Settles nat "'a settlement"

text \<open>A promise observed from time \<open>now\<close> on cannot be seen to settle earlier.\<close>

definition not_before :: "nat \<Rightarrow> 'a promise \<Rightarrow> 'a promise" where
  "not_before now p = (case p of Never \<Rightarrow> Never | Settles t r \<Rightarrow> Settles (max now t) r)"

text \<open>The earliest of a list of promises; equal instants go to the earlier position.\<close>

fun first_settled :: "'a promise list \<Rightarrow> 'a promise" where
  "first_settled [] = Never"
| "first_settled (p # ps) =
     (case p of
        Never \<Rightarrow> first_settled ps
      | Settles t r \<Rightarrow>
          (case first_settled ps of
             Never \<Rightarrow> Settles t r
           | Settles t' r' \<Rightarrow> if t' < t then Settles t' r' else Settles t r))"

text \<open>
  \<^verbatim>\<open>Promise.race(ps)\<close> called at time \<open>now\<close>. The results below that name a
  winner ask for strictly earlier instants, so none rests on how equal instants are ordered.
\<close>

definition race :: "nat \<Rightarrow> 'a promise list \<Rightarrow> 'a promise" where
  "race now ps = first_settled (map (not_before now) ps)"

subsection \<open>Strings\<close>

definition digit_char :: "nat \<Rightarrow> char" where
  "digit_char n = ''0123456789abcdef'' ! (n mod 16)"

fun digits :: "nat \<Rightarrow> string" where
  "digits n = (if n < 10 then [digit_char n]
               else digits (n div 10) @ [digit_char (n mod 10)])"

declare digits.simps [simp del]

text \<open>A number inside a template literal.\<close>

definition number_text :: "int \<Rightarrow> string" where
  "number_text i = (if i < 0 then CHR ''-'' # digits (nat (- i)) else digits (nat i))"

fun starts_with :: "string \<Rightarrow> string \<Rightarrow> bool" where
  "starts_with s [] = True"
| "starts_with [] (p # ps) = False"
| "starts_with (c # cs) (p # ps) = (c = p \<and> starts_with cs ps)"

text \<open>\<^verbatim>\<open>s.includes(pat)\<close>\<close>

fun str_includes :: "string \<Rightarrow> string \<Rightarrow> bool" where
  "str_includes [] pat = (pat = [])"
| "str_includes (c # cs) pat = (starts_with (c # cs) pat \<or> str_includes cs pat)"

fun join :: "string \<Rightarrow> string list \<Rightarrow> string" where
  "join sep [] = []"
| "join sep [s] = s"
| "join sep (s # t # ts) = s @ sep @ join sep (t # ts)"

text \<open>The TypeError of an object that has no way to become a primitive value.\<close>

definition no_primitive :: jserror where
  "no_primitive = JsError (Some ''Cannot convert object to primitive value'')"

text \<open>The strings of a list of conversions, or the first error thrown among them.\<close>

fun first_thrown :: "(jserror + string) list \<Rightarrow> jserror + string list" where
  "first_thrown [] = Inr []"
| "first_thrown (Inl e # rs) = Inl e"
| "first_thrown (Inr s # rs) =
     (case first_thrown rs of Inl e \<Rightarrow> Inl e | Inr ss \<Rightarrow> Inr (s # ss))"

text \<open>
  \<^verbatim>\<open>String(v)\<close>, which a template literal applies too: the string, or the error
  thrown. Array elements that are null or undefined render as nothing, and the conversion
  of an element may throw. An object literal renders as \<^verbatim>\<open>[object Object]\<close> unless a
  property \<^verbatim>\<open>toString\<close> of its own hides the inherited method: no value of
  \<open>jsval\<close> can be called, so neither that property nor \<^verbatim>\<open>valueOf\<close> gives a
  primitive value.
\<close>

fun js_String :: "jsval \<Rightarrow> jserror + string" where
  "js_String JUndefined = Inr ''undefined''"
| "js_String JNull = Inr ''null''"
| "js_String (JBool b) = Inr (if b then ''true'' else ''false'')"
| "js_String (JNum n) = Inr (number_text n)"
| "js_String (JBigInt n) = Inr (number_text n)"
| "js_String (JStr s) = Inr s"
| "js_String (JBytes bs) = Inr (join '','' (map (\<lambda>b. digits (unat b)) bs))"
| "js_String (JArr vs) =
     (case first_thrown
             (map (\<lambda>v. if v = JUndefined \<or> v = JNull then Inr [] else js_String v) vs) of
        Inl e \<Rightarrow> Inl e
      | Inr ss \<Rightarrow> Inr (join '','' ss))"
| "js_String (JObj kvs) =
     (if ''toString'' \<in> set (map fst kvs) then Inl no_primitive else Inr ''[object Object]'')"
| "js_String (JOther conversion) = conversion"

text \<open>\<^verbatim>\<open>Number.isSafeInteger\<close>\<close>

definition safe_integer :: "int \<Rightarrow> bool" where
  "safe_integer n = (\<bar>n\<bar> \<le> 2 ^ 53 - 1)"

text \<open>
  The values of the model that stand for a value whose conversion to a string cannot
  throw: the primitives, a number being a safe integer, byte arrays, object literals
  without a property \<^verbatim>\<open>toString\<close>, objects whose own \<^verbatim>\<open>toString\<close> returns a
  string, and arrays of such values.
\<close>

fun plain :: "jsval \<Rightarrow> bool" where
  "plain (JNum n) = safe_integer n"
| "plain (JArr vs) = (\<forall>v \<in> set vs. plain v)"
| "plain (JObj kvs) = (''toString'' \<notin> set (map fst kvs))"
| "plain (JOther conversion) = (case conversion of Inl e \<Rightarrow> False | Inr s \<Rightarrow> True)"
| "plain v = True"

text \<open>The falsy values among \<open>jsval\<close>.\<close>

fun truthy :: "jsval \<Rightarrow> bool" where
  "truthy JUndefined = False"
| "truthy JNull = False"
| "truthy (JBool b) = b"
| "truthy (JNum n) = (n \<noteq> 0)"
| "truthy (JBigInt n) = (n \<noteq> 0)"
| "truthy (JStr s) = (s \<noteq> [])"
| "truthy (JBytes bs) = True"
| "truthy (JArr vs) = True"
| "truthy (JObj kvs) = True"
| "truthy (JOther conversion) = True"

section \<open>The connection and the registry of client sockets\<close>

datatype ready_state = CONNECTING | OPEN | CLOSING | CLOSED

text \<open>A payload as the transport delivers it: a string, or a buffer of bytes.\<close>

datatype payload = Text string | Binary "8 word list"

datatype send_options = NoOptions | BinaryFlag bool

text \<open>
  What the transport does with the callback of one \<^verbatim>\<open>send\<close>: never calls it, or
  calls it after a delay with or without an error. A \<^verbatim>\<open>send\<close> that throws is an
  error after no delay: the executor of the promise turns the throw into the same rejection.
\<close>

datatype ack = NoAck | Ack nat "jserror option"

text \<open>
  The \<^verbatim>\<open>WebSocket\<close> object with the properties \<^verbatim>\<open>wsRequest\<close> attaches to it.
  The three queues are given by what is pushed on them and when: \<open>messages\<close> holds the
  pushes not popped yet, \<open>closed\<close> the close event, \<open>firstError\<close> the first error
  after the handshake. \<open>sent\<close> and \<open>closeCalls\<close> record the calls made on the
  transport.
\<close>

record websocket =
  readyState :: ready_state
  messages :: "(nat \<times> payload) list"
  closed :: "(nat \<times> int \<times> string) option"
  firstError :: "(nat \<times> jserror) option"
  sendAck :: "jsval \<Rightarrow> send_options \<Rightarrow> ack"
  sent :: "(jsval \<times> send_options) list"
  closeCalls :: "(int option \<times> string option) list"

type_synonym ref = nat

text \<open>The objects by reference, and the module-level set \<^verbatim>\<open>clientSockets\<close> in insertion order.\<close>

record world =
  heap :: "ref \<Rightarrow> websocket"
  clientSockets :: "ref list"

definition update_socket :: "ref \<Rightarrow> (websocket \<Rightarrow> websocket) \<Rightarrow> world \<Rightarrow> world" where
  "update_socket ws f w = w\<lparr>heap := (heap w)(ws := f (heap w ws))\<rparr>"

section \<open>Sending\<close>

text \<open>\<^verbatim>\<open>ws.send(msg, options, callback)\<close>: the frame is handed to the transport.\<close>

definition transport_send :: "ref \<Rightarrow> jsval \<Rightarrow> send_options \<Rightarrow> world \<Rightarrow> world" where
  "transport_send ws msg options w =
     update_socket ws (\<lambda>s. s\<lparr>sent := sent s @ [(msg, options)]\<rparr>) w"

text \<open>\<^verbatim>\<open>err.message && err.message.includes(pat)\<close>\<close>

definition message_includes :: "jserror \<Rightarrow> string \<Rightarrow> bool" where
  "message_includes err pat =
     (case message err of None \<Rightarrow> False | Some m \<Rightarrow> m \<noteq> [] \<and> str_includes m pat)"

definition cannot_send :: "int \<Rightarrow> string \<Rightarrow> jserror" where
  "cannot_send code msg =
     JsError (Some (''Cannot send message; connection closed with '' @ number_text code
                    @ '' \"'' @ msg @ ''\"''))"

text \<open>
  \<^verbatim>\<open>sendWithError\<close>: the promise settled by the callback of \<^verbatim>\<open>ws.send\<close>, then
  its \<^verbatim>\<open>catch\<close> handler, which throws only inside its \<^verbatim>\<open>if\<close>.
\<close>

definition sendWithError ::
  "ref \<Rightarrow> jsval \<Rightarrow> send_options \<Rightarrow> nat \<Rightarrow> world \<Rightarrow> jsval promise \<times> world" where
  "sendWithError ws msg options now w =
     (let sock = heap w ws;
          delivered = (case sendAck sock msg options of
                         NoAck \<Rightarrow> Never
                       | Ack d None \<Rightarrow> Settles (now + d) (Fulfilled JUndefined)
                       | Ack d (Some err) \<Rightarrow> Settles (now + d) (Failed err))
      in (case delivered of
            Settles t (Failed err) \<Rightarrow>
              (if message_includes err ''WebSocket is not open''
               then (case closed sock of
                       None \<Rightarrow> Never
                     | Some (tc, code, msg) \<Rightarrow> Settles (max t tc) (Failed (cannot_send code msg)))
               else Settles t (Fulfilled JUndefined))
          | _ \<Rightarrow> delivered,
          transport_send ws msg options w))"

text \<open>
  The built-in and third-party functions the module calls as black boxes:
  \<^verbatim>\<open>JSON.stringify\<close> (a string or undefined, or a thrown error), \<^verbatim>\<open>JSON.parse\<close>
  and \<^verbatim>\<open>fast-deep-equal\<close>.
\<close>

record platform =
  JSON_stringify :: "jsval \<Rightarrow> jserror + jsval"
  JSON_parse :: "string \<Rightarrow> jserror + jsval"
  deep_equal :: "jsval \<Rightarrow> jsval \<Rightarrow> bool"

text \<open>
  What calling a method of \<^verbatim>\<open>wsMethods\<close> gives back to its caller: it throws before
  returning, or it returns a promise (a plain value counts as a promise fulfilled at once).
\<close>

datatype 'v returned = Throws jserror | Returns "'v promise"

type_synonym operation = "ref \<Rightarrow> nat \<Rightarrow> world \<Rightarrow> jsval returned \<times> world"

text \<open>\<^verbatim>\<open>new Uint8Array(v)\<close> on a buffer of bytes is a copy of the bytes.\<close>

definition normaliseBinary :: "8 word list \<Rightarrow> 8 word list" where
  "normaliseBinary v = v"

definition send :: "jsval \<Rightarrow> send_options \<Rightarrow> operation" where
  "send msg options ws now w =
     (let (p, w') = sendWithError ws msg options now w in (Returns p, w'))"

text \<open>\<^verbatim>\<open>String(msg)\<close> is evaluated, and may throw, before \<^verbatim>\<open>sendWithError\<close> is called.\<close>

definition sendText :: "jsval \<Rightarrow> operation" where
  "sendText msg ws now w =
     (case js_String msg of
        Inl e \<Rightarrow> (Throws e, w)
      | Inr text \<Rightarrow>
          (let (p, w') = sendWithError ws (JStr text) NoOptions now w in (Returns p, w')))"

definition sendJson :: "platform \<Rightarrow> jsval \<Rightarrow> operation" where
  "sendJson P msg ws now w =
     (case JSON_stringify P msg of
        Inl e \<Rightarrow> (Throws e, w)
      | Inr text \<Rightarrow> (let (p, w') = sendWithError ws text NoOptions now w in (Returns p, w')))"

definition sendBinary :: "8 word list \<Rightarrow> operation" where
  "sendBinary msg ws now w =
     (let (p, w') = sendWithError ws (JBytes (normaliseBinary msg)) (BinaryFlag True) now w
      in (Returns p, w'))"

definition wait :: "nat \<Rightarrow> operation" where
  "wait ms ws now w = (Returns (Settles (now + ms) (Fulfilled JUndefined)), w)"

text \<open>\<^verbatim>\<open>exec\<close> is an async function: what \<^verbatim>\<open>fn\<close> throws becomes a rejection.\<close>

definition exec :: "operation \<Rightarrow> operation" where
  "exec fn ws now w =
     (case fn ws now w of
        (Throws e, w') \<Rightarrow> (Returns (Settles now (Failed e)), w')
      | (Returns p, w') \<Rightarrow> (Returns (not_before now p), w'))"

section \<open>Expecting a message\<close>

definition typeof_payload :: "payload \<Rightarrow> string" where
  "typeof_payload data = (case data of Text s \<Rightarrow> ''string'' | Binary bs \<Rightarrow> ''object'')"

definition msgText :: "payload \<Rightarrow> jserror + jsval" where
  "msgText data =
     (case data of
        Binary bs \<Rightarrow> Inl (JsError (Some (''Expected text message, got '' @ typeof_payload data)))
      | Text s \<Rightarrow> Inr (JStr s))"




definition hex_byte :: "8 word \<Rightarrow> string" where
  "hex_byte b = [digit_char (unat b div 16), digit_char (unat b mod 16)]"

definition stringifyBinary :: "8 word list \<Rightarrow> string" where
  "stringifyBinary v = ''['' @ join '' '' (map hex_byte v) @ '']''"

text \<open>
  The \<^verbatim>\<open>check\<close> argument of \<^verbatim>\<open>expectMessage\<close>: a function, with the result of
  calling it (a value, or a thrown error) and its \<^verbatim>\<open>expectedMessage\<close> property, or
  any other value; \<open>Literal JUndefined\<close> is no check.
\<close>

datatype check =
    Function "jsval \<Rightarrow> jserror + jsval" "string option"
  | Literal jsval

fun is_undefined :: "check \<Rightarrow> bool" where
  "is_undefined (Literal JUndefined) = True"
| "is_undefined c = False"

text \<open>\<^verbatim>\<open>stringify\<close>, on a received value and on a check.\<close>

definition stringify :: "platform \<Rightarrow> jsval \<Rightarrow> jserror + string" where
  "stringify P v =
     (case v of
        JBytes bs \<Rightarrow> Inr (stringifyBinary bs)
      | _ \<Rightarrow> (case JSON_stringify P v of Inl e \<Rightarrow> Inl e | Inr text \<Rightarrow> js_String text))"

definition stringify_check :: "platform \<Rightarrow> check \<Rightarrow> jserror + string" where
  "stringify_check P c =
     (case c of
        Function f expectedMessage \<Rightarrow>
          Inr (case expectedMessage of
                 None \<Rightarrow> ''matching function''
               | Some m \<Rightarrow> if m = [] then ''matching function'' else m)
      | Literal v \<Rightarrow> stringify P v)"

text \<open>An error whose message is put together from parts that may themselves throw.\<close>

definition thrown :: "(jserror + string) \<Rightarrow> (string \<Rightarrow> jserror + string) \<Rightarrow> jserror" where
  "thrown part rest =
     (case part of
        Inl e \<Rightarrow> e
      | Inr a \<Rightarrow> (case rest a of Inl e \<Rightarrow> e | Inr m \<Rightarrow> JsError (Some m)))"

definition closed_while_waiting :: "platform \<Rightarrow> check \<Rightarrow> int \<Rightarrow> string \<Rightarrow> jserror" where
  "closed_while_waiting P c code msg =
     thrown (stringify_check P c)
       (\<lambda>a. Inr (''Expected message '' @ a @ '', but connection closed: ''
                 @ number_text code @ '' \"'' @ msg @ ''\"''))"

definition nothing_arrived :: "int \<Rightarrow> jserror" where
  "nothing_arrived timeout =
     JsError (Some (''Excepted message within '' @ number_text timeout
                    @ ''ms, but nothing arrived''))"

definition mismatch :: "platform \<Rightarrow> check \<Rightarrow> jsval \<Rightarrow> jserror" where
  "mismatch P c received =
     thrown (stringify_check P c)
       (\<lambda>a. case stringify P received of
               Inl e \<Rightarrow> Inl e
             | Inr b \<Rightarrow> Inr (''Expected message '' @ a @ '', got '' @ b))"

text \<open>
  The race at the head of \<^verbatim>\<open>expectMessage\<close>: the next message of the queue, the close
  event turned into a failure, and the timer, armed only when \<^verbatim>\<open>timeout > 0\<close>.
  The pop takes the next message off the queue whoever wins.
\<close>

definition awaitMessage ::
  "platform \<Rightarrow> check \<Rightarrow> int option \<Rightarrow> ref \<Rightarrow> nat \<Rightarrow> world \<Rightarrow> payload promise \<times> world" where
  "awaitMessage P c timeout ws now w =
     (let sock = heap w ws;
          popped = (case messages sock of
                      [] \<Rightarrow> Never
                    | (t, data) # rest \<Rightarrow> Settles t (Fulfilled data));
          closing = (case closed sock of
                       None \<Rightarrow> Never
                     | Some (t, code, msg) \<Rightarrow> Settles t (Failed (closed_while_waiting P c code msg)));
          timer = (case timeout of
                     None \<Rightarrow> Never
                   | Some ms \<Rightarrow> if ms > 0 then Settles (now + nat ms) (Failed (nothing_arrived ms))
                               else Never)
      in (race now [popped, closing, timer],
          update_socket ws (\<lambda>s. s\<lparr>messages := drop 1 (messages s)\<rparr>) w))"

text \<open>The rest of \<^verbatim>\<open>expectMessage\<close>, once a message has been converted.\<close>

definition verdict :: "platform \<Rightarrow> check \<Rightarrow> jsval \<Rightarrow> jsval settlement" where
  "verdict P c received =
     (if is_undefined c then Fulfilled JUndefined
      else (case c of
              Function f expectedMessage \<Rightarrow>
                (case f received of
                   Inl e \<Rightarrow> Failed e
                 | Inr result \<Rightarrow>
                     if result = JBool False then Failed (mismatch P c received)
                     else Fulfilled JUndefined)
            | Literal v \<Rightarrow>
                if \<not> deep_equal P received v then Failed (mismatch P c received)
                else Fulfilled JUndefined))"

definition expectMessage ::
  "platform \<Rightarrow> (payload \<Rightarrow> jserror + jsval) \<Rightarrow> check \<Rightarrow> int option \<Rightarrow> operation" where
  "expectMessage P conversion c timeout ws now w =
     (let (arrived, w') = awaitMessage P c timeout ws now w
      in (Returns
            (case arrived of
               Never \<Rightarrow> Never
             | Settles t (Failed e) \<Rightarrow> Settles t (Failed e)
             | Settles t (Fulfilled data) \<Rightarrow>
                 Settles t (case conversion data of
                              Inl e \<Rightarrow> Failed e
                            | Inr received \<Rightarrow> verdict P c received)),
          w'))"

text \<open>The \<^verbatim>\<open>expected\<close> argument of \<^verbatim>\<open>expectText\<close>: a regular expression, given by
  its \<^verbatim>\<open>test\<close> and its rendering, or anything else.\<close>

datatype text_expected = RegExp "string \<Rightarrow> bool" string | Other check

definition expectText :: "platform \<Rightarrow> text_expected \<Rightarrow> int option \<Rightarrow> operation" where
  "expectText P expected timeout =
     (case expected of
        RegExp test rendering \<Rightarrow>
          expectMessage P msgText
            (Function (\<lambda>v. case js_String v of Inl e \<Rightarrow> Inl e | Inr s \<Rightarrow> Inr (JBool (test s)))
               (Some (''matching '' @ rendering)))
            timeout
      | Other c \<Rightarrow> expectMessage P msgText c timeout)"




section \<open>Closing\<close>

definition isOpen :: "websocket \<Rightarrow> bool" where
  "isOpen s = (readyState s = CONNECTING \<or> readyState s = OPEN)"

text \<open>
  The transport's own \<^verbatim>\<open>close(code, reason)\<close>: a connecting or open socket starts
  closing, any other keeps its state; the call is recorded.
\<close>

definition transport_close :: "int option \<Rightarrow> string option \<Rightarrow> websocket \<Rightarrow> websocket" where
  "transport_close code reason s =
     s\<lparr>readyState := (if isOpen s then CLOSING else readyState s),
       closeCalls := closeCalls s @ [(code, reason)]\<rparr>"

text \<open>The \<^verbatim>\<open>ws.close\<close> installed by \<^verbatim>\<open>wsRequest\<close>: the original close, then
  \<^verbatim>\<open>clientSockets.delete(ws)\<close>.\<close>

definition ws_close :: "ref \<Rightarrow> int option \<Rightarrow> string option \<Rightarrow> world \<Rightarrow> world" where
  "ws_close ws code reason w =
     (update_socket ws (transport_close code reason) w)
       \<lparr>clientSockets := removeAll ws (clientSockets w)\<rparr>"



text \<open>The effect of the handler \<^verbatim>\<open>closeAndRethrow(ws)\<close>; it always rethrows its argument.\<close>

definition closeAndRethrow :: "ref \<Rightarrow> world \<Rightarrow> world" where
  "closeAndRethrow ws w = (if isOpen (heap w ws) then ws_close ws None None w else w)"

text \<open>\<^verbatim>\<open>request.closeAll\<close>\<close>

definition closeAll :: "world \<Rightarrow> nat \<times> world" where
  "closeAll w =
     (let remaining = filter (\<lambda>ws. isOpen (heap w ws)) (clientSockets w);
          cleared = w\<lparr>clientSockets := []\<rparr>
      in (length remaining, foldl (\<lambda>w' ws. ws_close ws None None w') cleared remaining))"

section \<open>The chain\<close>

text \<open>
  The variable \<^verbatim>\<open>chain\<close>: a promise of the connection, with the world as it is when
  the promise settles.
\<close>

type_synonym chain = "ref promise \<times> world"

text \<open>\<^verbatim>\<open>ws.firstError\<close>, a promise that only ever rejects.\<close>

definition firstError_promise :: "websocket \<Rightarrow> 'a promise" where
  "firstError_promise s =
     (case firstError s of None \<Rightarrow> Never | Some (t, e) \<Rightarrow> Settles t (Failed e))"

text \<open>
  One fluent call: \<^verbatim>\<open>chain.then((ws) => Promise.race([fn(ws, ...args), ws.firstError])
  .catch(closeAndRethrow(ws)).then(() => ws))\<close>. An operation that throws before it
  returns leaves the callback before the race and its \<^verbatim>\<open>catch\<close> exist.
\<close>

definition thenDo :: "operation \<Rightarrow> chain \<Rightarrow> chain" where
  "thenDo fn c =
     (case c of
        (Never, w) \<Rightarrow> (Never, w)
      | (Settles t (Failed e), w) \<Rightarrow> (Settles t (Failed e), w)
      | (Settles t (Fulfilled ws), w) \<Rightarrow>
          (case fn ws t w of
             (Throws e, w') \<Rightarrow> (Settles t (Failed e), w')
           | (Returns p, w') \<Rightarrow>
               (case race t [p, firstError_promise (heap w' ws)] of
                  Never \<Rightarrow> (Never, w')
                | Settles t' (Failed e) \<Rightarrow> (Settles t' (Failed e), closeAndRethrow ws w')
                | Settles t' (Fulfilled v) \<Rightarrow> (Settles t' (Fulfilled ws), w'))))"

text \<open>A sequence of fluent calls, each rebinding \<^verbatim>\<open>chain\<close>.\<close>

definition pipeline :: "operation list \<Rightarrow> chain \<Rightarrow> chain" where
  "pipeline fns c = foldl (\<lambda>c' fn. thenDo fn c') c fns"


section \<open>Expecting the handshake to fail\<close>

definition reportConnectionShouldFail :: "ref \<Rightarrow> world \<Rightarrow> jserror \<times> world" where
  "reportConnectionShouldFail ws w =
     (JsError (Some ''Expected connection failure, but succeeded''), ws_close ws None None w)"

text \<open>\<^verbatim>\<open>checkConnectionError\<close>: \<open>None\<close> when it returns, the error when it throws.\<close>

definition checkConnectionError :: "jserror \<Rightarrow> jsval \<Rightarrow> jserror option" where
  "checkConnectionError error expectedCode =
     (if \<not> truthy expectedCode then None
      else (let expected = (case expectedCode of
                              JNum n \<Rightarrow> JStr (''Unexpected server response: '' @ number_text n)
                            | _ \<Rightarrow> expectedCode);
                actual = (case message error of None \<Rightarrow> JUndefined | Some m \<Rightarrow> JStr m)
            in if actual \<noteq> expected
               then Some (thrown (js_String expected)
                            (\<lambda>a. case js_String actual of
                                   Inl e \<Rightarrow> Inl e
                                 | Inr b \<Rightarrow>
                                     Inr (''Expected connection failure with message \"'' @ a
                                          @ ''\", got \"'' @ b @ ''\"'')))
               else None))"

text \<open>\<^verbatim>\<open>chain.expectConnectionError\<close>, whose argument defaults to null.\<close>

definition expectConnectionError :: "jsval \<Rightarrow> chain \<Rightarrow> jsval promise \<times> world" where
  "expectConnectionError expectedCode c =
     (let code = (if expectedCode = JUndefined then JNull else expectedCode)
      in (case c of
            (Never, w) \<Rightarrow> (Never, w)
          | (Settles t (Fulfilled ws), w) \<Rightarrow>
              (let (e, w') = reportConnectionShouldFail ws w in (Settles t (Failed e), w'))
          | (Settles t (Failed error), w) \<Rightarrow>
              (case checkConnectionError error code of
                 None \<Rightarrow> (Settles t (Fulfilled JUndefined), w)
               | Some e \<Rightarrow> (Settles t (Failed e), w))))"

section \<open>Events still to come\<close>

text \<open>When the next message, the close event and the first error arrive, if ever.\<close>

definition next_message_at :: "websocket \<Rightarrow> nat option" where
  "next_message_at s = (case messages s of [] \<Rightarrow> None | (t, d) # rest \<Rightarrow> Some t)"

definition close_event_at :: "websocket \<Rightarrow> nat option" where
  "close_event_at s = (case closed s of None \<Rightarrow> None | Some (t, code, msg) \<Rightarrow> Some t)"

definition first_error_at :: "websocket \<Rightarrow> nat option" where
  "first_error_at s = (case firstError s of None \<Rightarrow> None | Some (t, e) \<Rightarrow> Some t)"

text \<open>An event that happens, if at all, strictly after the instant \<open>t\<close>.\<close>

definition later_than :: "nat \<Rightarrow> nat option \<Rightarrow> bool" where
  "later_than t ev = (case ev of None \<Rightarrow> True | Some t' \<Rightarrow> t < t')"

section \<open>Sample connections\<close>

text \<open>An open connection on which nothing arrives and every send is confirmed after 1 ms.\<close>

definition idle_socket :: websocket where
  "idle_socket =
     \<lparr>readyState = OPEN, messages = [], closed = None, firstError = None,
      sendAck = (\<lambda>msg options. Ack 1 None), sent = [], closeCalls = []\<rparr>"

definition single :: "websocket \<Rightarrow> world" where
  "single s = \<lparr>heap = (\<lambda>r. s), clientSockets = [0]\<rparr>"

definition broken_pipe :: jserror where
  "broken_pipe = JsError (Some ''write EPIPE'')"

text \<open>A connection whose transport reports \<open>broken_pipe\<close> to the callback of every send.\<close>

definition failing_socket :: websocket where
  "failing_socket = idle_socket\<lparr>sendAck := (\<lambda>msg options. Ack 5 (Some broken_pipe))\<rparr>"

text \<open>A connection on which an error is emitted 10 ms after the handshake.\<close>

definition erring_socket :: websocket where
  "erring_socket = idle_socket\<lparr>firstError := Some (10, broken_pipe)\<rparr>"

text \<open>Connections with one message on the way, a text and a binary one.\<close>

definition greeting_socket :: websocket where
  "greeting_socket = idle_socket\<lparr>messages := [(3, Text ''hello'')]\<rparr>"

definition bytes_socket :: websocket where
  "bytes_socket = idle_socket\<lparr>messages := [(3, Binary [1, 2])]\<rparr>"

text \<open>Three registered connections: open, connecting and closing.\<close>

definition trio :: world where
  "trio = \<lparr>heap = (\<lambda>r. if r = 2 then idle_socket\<lparr>readyState := CLOSING\<rparr>
                       else if r = 1 then idle_socket\<lparr>readyState := CONNECTING\<rparr>
                       else idle_socket),
           clientSockets = [0, 1, 2]\<rparr>"



text \<open>The error of a handshake answered with status 404.\<close>

definition refused :: jserror where
  "refused = JsError (Some ''Unexpected server response: 404'')"



text \<open>
  The built-ins on the values of the examples: \<^verbatim>\<open>JSON.stringify\<close> throws a
  TypeError on a BigInt, renders numbers, booleans, null and strings without characters
  to escape, and is left at undefined elsewhere; \<^verbatim>\<open>JSON.parse\<close> knows
  \<^verbatim>\<open>null\<close> only.
\<close>

definition no_bigint :: jserror where
  "no_bigint = JsError (Some ''Do not know how to serialize a BigInt'')"

fun sample_stringify :: "jsval \<Rightarrow> jserror + jsval" where
  "sample_stringify (JBigInt n) = Inl no_bigint"
| "sample_stringify (JNum n) = Inr (JStr (number_text n))"
| "sample_stringify JNull = Inr (JStr ''null'')"
| "sample_stringify (JBool b) = Inr (JStr (if b then ''true'' else ''false''))"
| "sample_stringify (JStr text) = Inr (JStr (''\"'' @ text @ ''\"''))"
| "sample_stringify v = Inr JUndefined"

definition sample_parse :: "string \<Rightarrow> jserror + jsval" where
  "sample_parse text = (if text = ''null'' then Inr JNull
                        else Inl (JsError (Some ''Unexpected token'')))"

definition sample_platform :: platform where
  "sample_platform =
     \<lparr>JSON_stringify = sample_stringify, JSON_parse = sample_parse, deep_equal = (=)\<rparr>"

lemmas samples = single_def idle_socket_def erring_socket_def greeting_socket_def
  bytes_socket_def broken_pipe_def sample_platform_def race_def not_before_def
  firstError_promise_def update_socket_def transport_send_def Let_def

section \<open>Send failures\<close>

lemma sendWithError_other_error:
  assumes "sendAck (heap w ws) msg options = Ack d (Some err)"
    and "\<not> message_includes err ''WebSocket is not open''"
  shows "fst (sendWithError ws msg options now w) = Settles (now + d) (Fulfilled JUndefined)"
  using assms by (simp add: sendWithError_def)

lemma sendWithError_not_open:
  assumes "sendAck (heap w ws) msg options = Ack d (Some err)"
    and "message_includes err ''WebSocket is not open''"
    and "closed (heap w ws) = Some (tc, code, reason)"
  shows "fst (sendWithError ws msg options now w)
           = Settles (max (now + d) tc) (Failed (cannot_send code reason))"
  using assms by (simp add: sendWithError_def)

text \<open>
  C1. The claim: whenever the callback of the transport's send reports an error, the
  promise of the send primitive rejects and the failure reaches the end of the chain.
  The code at a callback error \<^verbatim>\<open>write EPIPE\<close>: the \<^verbatim>\<open>catch\<close> handler of
  \<^verbatim>\<open>sendWithError\<close> rethrows only errors that mention \<^verbatim>\<open>WebSocket is not open\<close>,
  so here the promise of \<^verbatim>\<open>sendWithError\<close> fulfils, and so does the step
  \<^verbatim>\<open>sendText('foo')\<close> of a chain: the failure is lost.
\<close>

theorem sendWithError_swallows_callback_error:
  "sendAck (heap (single failing_socket) 0) (JStr ''foo'') NoOptions = Ack 5 (Some broken_pipe)
   \<and> fst (sendWithError 0 (JStr ''foo'') NoOptions 0 (single failing_socket))
       = Settles 5 (Fulfilled JUndefined)
   \<and> fst (thenDo (sendText (JStr ''foo'')) (Settles 0 (Fulfilled 0), single failing_socket))
       = Settles 5 (Fulfilled 0)"
  by (simp add: sendWithError_def single_def failing_socket_def idle_socket_def broken_pipe_def
        message_includes_def thenDo_def sendText_def race_def not_before_def
        firstError_promise_def transport_send_def update_socket_def)

section \<open>Steps of the chain\<close>


lemma race_ge: "race t ps = Settles t' r \<Longrightarrow> t \<le> t'"
proof (induction ps arbitrary: t' r)
  case Nil
  then show ?case by (simp add: race_def)
next
  case (Cons p ps)
  then show ?case
    by (auto simp: race_def not_before_def split: promise.splits if_splits)
qed








text \<open>
  C3. A step races its operation against \<^verbatim>\<open>ws.firstError\<close>: when the first error
  after the handshake arrives at \<open>te\<close> and the promise of the operation is still pending
  then (it never settles, or settles later than both \<open>te\<close> and the start \<open>t\<close> of the
  step), the step fails with that error, at once if the error is older than the step.
\<close>

theorem thenDo_fail_fast:
  assumes "fn ws t w = (Returns p, w')"
    and "firstError (heap w' ws) = Some (te, e)"
    and "p = Never \<or> (\<exists>tp r. p = Settles tp r \<and> max t te < tp)"
  shows "thenDo fn (Settles t (Fulfilled ws), w) = (Settles (max t te) (Failed e), closeAndRethrow ws w')"
  using assms
  by (auto simp: thenDo_def race_def not_before_def firstError_promise_def)

theorem thenDo_fail_fast_witness:
  "thenDo (wait 100) (Settles 0 (Fulfilled 0), single erring_socket)
     = (Settles 10 (Failed broken_pipe), closeAndRethrow 0 (single erring_socket))"
  using thenDo_fail_fast [of "wait 100" 0 0 "single erring_socket"
      "Settles 100 (Fulfilled JUndefined)" "single erring_socket" 10 broken_pipe]
  by (simp add: wait_def single_def erring_socket_def idle_socket_def)

section \<open>Closing after a failure\<close>

lemma closeAndRethrow_not_open: "\<not> isOpen (heap (closeAndRethrow ws w) ws)"
  by (simp add: closeAndRethrow_def ws_close_def update_socket_def transport_close_def isOpen_def)

lemma thenDo_rejected:
  "thenDo fn (Settles t (Failed e), w) = (Settles t (Failed e), w)"
  by (simp add: thenDo_def)

lemma pipeline_rejected:
  "pipeline fns (Settles t (Failed e), w) = (Settles t (Failed e), w)"
  by (induction fns rule: rev_induct) (simp_all add: pipeline_def thenDo_def)

lemma thenDo_race_rejects:
  assumes "fn ws t w = (Returns p, w')"
    and "race t [p, firstError_promise (heap w' ws)] = Settles t' (Failed e)"
  shows "thenDo fn (Settles t (Fulfilled ws), w) = (Settles t' (Failed e), closeAndRethrow ws w')"
  using assms by (simp add: thenDo_def)

lemma thenDo_throw_skips_close:
  assumes "fn ws t w = (Throws e, w')"
  shows "thenDo fn (Settles t (Fulfilled ws), w) = (Settles t (Failed e), w')"
  using assms by (simp add: thenDo_def)

text \<open>
  C4. The claim: whenever a step fails, the connection is closed (if it is connecting or
  open) before the error is rethrown, and the later steps never run. The code at the step
  \<^verbatim>\<open>sendJson(10n)\<close> on an open connection: \<^verbatim>\<open>JSON.stringify\<close> throws while the
  arguments of \<^verbatim>\<open>Promise.race\<close> are evaluated, the chain rejects with that error, and
  the connection is left open with no call of \<^verbatim>\<open>close\<close>, because the
  \<^verbatim>\<open>catch(closeAndRethrow(ws))\<close> hangs on a race that was never made. The same throw
  inside \<^verbatim>\<open>exec\<close>, an async function, does close the connection.
\<close>

theorem thenDo_throw_leaves_connection_open:
  "thenDo (sendJson sample_platform (JBigInt 10)) (Settles 0 (Fulfilled 0), single idle_socket)
     = (Settles 0 (Failed no_bigint), single idle_socket)
   \<and> isOpen (heap (single idle_socket) 0)
   \<and> closeCalls (heap (single idle_socket) 0) = []
   \<and> thenDo (exec (sendJson sample_platform (JBigInt 10))) (Settles 0 (Fulfilled 0), single idle_socket)
     = (Settles 0 (Failed no_bigint), ws_close 0 None None (single idle_socket))"
  by (simp add: thenDo_def sendJson_def sample_platform_def single_def idle_socket_def isOpen_def
       exec_def race_def not_before_def firstError_promise_def closeAndRethrow_def)

section \<open>The handshake that should fail\<close>

text \<open>
  C5. \<^verbatim>\<open>expectConnectionError\<close> fails, after closing the connection, whenever the
  handshake succeeds; when the handshake is rejected and the expected status is a number
  \<open>n\<close> other than 0, it succeeds exactly when the message of the rejection is
  \<^verbatim>\<open>Unexpected server response: n\<close>, and fails with a message that shows the expected
  and the actual text otherwise.
\<close>

theorem expectConnectionError_outcomes:
  "expectConnectionError code (Settles t (Fulfilled ws), w)
     = (Settles t (Failed (JsError (Some ''Expected connection failure, but succeeded''))),
        ws_close ws None None w)
   \<and> (n \<noteq> 0 \<longrightarrow>
        expectConnectionError (JNum n) (Settles t (Failed error), w)
          = (if message error = Some (''Unexpected server response: '' @ number_text n)
             then (Settles t (Fulfilled JUndefined), w)
             else (Settles t (Failed (JsError (Some
                     (''Expected connection failure with message \"Unexpected server response: ''
                      @ number_text n @ ''\", got \"''
                      @ (case message error of None \<Rightarrow> ''undefined'' | Some m \<Rightarrow> m)
                      @ ''\"'')))), w)))"
  by (auto simp: expectConnectionError_def reportConnectionShouldFail_def checkConnectionError_def thrown_def
        split: option.splits)

theorem expectConnectionError_outcomes_witness:
  "expectConnectionError (JNum 404) (Settles 3 (Failed refused), single idle_socket)
     = (Settles 3 (Fulfilled JUndefined), single idle_socket)
   \<and> fst (expectConnectionError (JNum 500) (Settles 3 (Failed refused), single idle_socket))
     = Settles 3 (Failed (JsError (Some
         ''Expected connection failure with message \"Unexpected server response: 500\", got \"Unexpected server response: 404\"'')))
   \<and> expectConnectionError (JNum 404) (Settles 3 (Fulfilled 0), single idle_socket)
     = (Settles 3 (Failed (JsError (Some ''Expected connection failure, but succeeded''))),
        ws_close 0 None None (single idle_socket))"
  using expectConnectionError_outcomes [of "JNum 404" 3 0 "single idle_socket" 404 refused]
    expectConnectionError_outcomes [of "JNum 404" 3 0 "single idle_socket" 500 refused]
  by (simp add: refused_def number_text_def digits.simps digit_char_def)

text \<open>The status 0 is falsy, so \<^verbatim>\<open>checkConnectionError\<close> returns before it compares.\<close>

theorem expectConnectionError_zero_counterexample:
  "fst (expectConnectionError (JNum 0) (Settles 3 (Failed refused), single idle_socket))
      = Settles 3 (Fulfilled JUndefined)
    \<and> message refused \<noteq> Some (''Unexpected server response: '' @ number_text 0)"
  by (simp add: expectConnectionError_def checkConnectionError_def refused_def number_text_def
        digits.simps)

section \<open>Expectations on messages\<close>

lemma awaitMessage_world:
  "snd (awaitMessage P c timeout ws t w) = update_socket ws (\<lambda>s. s\<lparr>messages := drop 1 (messages s)\<rparr>) w"
  by (simp add: awaitMessage_def Let_def)

lemma expectMessage_unfold:
  "expectMessage P conversion c timeout ws now w =
     (Returns (case fst (awaitMessage P c timeout ws now w) of
                 Never \<Rightarrow> Never
               | Settles t (Failed e) \<Rightarrow> Settles t (Failed e)
               | Settles t (Fulfilled data) \<Rightarrow>
                   Settles t (case conversion data of
                                Inl e \<Rightarrow> Failed e
                              | Inr received \<Rightarrow> verdict P c received)),
      update_socket ws (\<lambda>s. s\<lparr>messages := drop 1 (messages s)\<rparr>) w)"
  using awaitMessage_world [of P c timeout ws now w]
  by (cases "awaitMessage P c timeout ws now w") (simp add: expectMessage_def)






section \<open>The timeout of an expectation\<close>

lemma awaitMessage_timeout:
  assumes "0 < ms"
    and "later_than (t + nat ms) (next_message_at (heap w ws))"
    and "later_than (t + nat ms) (close_event_at (heap w ws))"
  shows "fst (awaitMessage P c (Some ms) ws t w) = Settles (t + nat ms) (Failed (nothing_arrived ms))"
  using assms
  by (auto simp: awaitMessage_def race_def not_before_def later_than_def next_message_at_def
        close_event_at_def Let_def split: list.splits option.splits)

lemma awaitMessage_no_timer:
  "timeout = None \<or> (\<exists>ms. timeout = Some ms \<and> ms \<le> 0) \<Longrightarrow>
     awaitMessage P c timeout ws t w = awaitMessage P c None ws t w"
  by (auto simp: awaitMessage_def)

text \<open>
  C8. A step that expects a message with a timeout \<open>ms > 0\<close>, started at \<open>t\<close>: if no
  message, no close event and no error of the connection arrives up to \<open>t + ms\<close>, the
  step fails at \<open>t + ms\<close> with the \<^verbatim>\<open>nothing arrived\<close> error and the connection is
  no longer open afterwards, \<^verbatim>\<open>close\<close> having been called if it was. With the timeout
  absent or not greater than zero the race is the one without a timer, and the step never
  settles when no message, no close event and no error ever arrives.
\<close>

theorem expectMessage_timeout:
  "(0 < ms \<and> later_than (t + nat ms) (next_message_at (heap w ws))
          \<and> later_than (t + nat ms) (close_event_at (heap w ws))
          \<and> later_than (t + nat ms) (first_error_at (heap w ws)) \<longrightarrow>
      fst (thenDo (expectMessage P conversion c (Some ms)) (Settles t (Fulfilled ws), w))
        = Settles (t + nat ms) (Failed (nothing_arrived ms))
      \<and> \<not> isOpen (heap (snd (thenDo (expectMessage P conversion c (Some ms))
                                  (Settles t (Fulfilled ws), w))) ws)
      \<and> (isOpen (heap w ws) \<longrightarrow>
           closeCalls (heap (snd (thenDo (expectMessage P conversion c (Some ms))
                                  (Settles t (Fulfilled ws), w))) ws)
             = closeCalls (heap w ws) @ [(None, None)]))
   \<and> ((timeout = None \<or> (\<exists>n. timeout = Some n \<and> n \<le> 0)) \<longrightarrow>
        awaitMessage P c timeout ws t w = awaitMessage P c None ws t w
        \<and> (messages (heap w ws) = [] \<and> closed (heap w ws) = None \<and> firstError (heap w ws) = None \<longrightarrow>
             fst (thenDo (expectMessage P conversion c timeout) (Settles t (Fulfilled ws), w)) = Never))"
proof (intro conjI impI)
  assume a: "0 < ms \<and> later_than (t + nat ms) (next_message_at (heap w ws))
          \<and> later_than (t + nat ms) (close_event_at (heap w ws))
          \<and> later_than (t + nat ms) (first_error_at (heap w ws))"
  let ?w' = "update_socket ws (\<lambda>s. s\<lparr>messages := drop 1 (messages s)\<rparr>) w"
  from a have aw: "fst (awaitMessage P c (Some ms) ws t w) = Settles (t + nat ms) (Failed (nothing_arrived ms))"
    by (simp add: awaitMessage_timeout)
  from a have fe: "later_than (t + nat ms) (first_error_at (heap ?w' ws))"
    by (simp add: update_socket_def first_error_at_def)
  have step: "thenDo (expectMessage P conversion c (Some ms)) (Settles t (Fulfilled ws), w)
      = (Settles (t + nat ms) (Failed (nothing_arrived ms)), closeAndRethrow ws ?w')"
    using fe
    by (auto simp: thenDo_def expectMessage_unfold aw race_def not_before_def
          firstError_promise_def later_than_def first_error_at_def split: option.splits)
  show "fst (thenDo (expectMessage P conversion c (Some ms)) (Settles t (Fulfilled ws), w))
        = Settles (t + nat ms) (Failed (nothing_arrived ms))"
    by (simp add: step)
  show "\<not> isOpen (heap (snd (thenDo (expectMessage P conversion c (Some ms))
                                  (Settles t (Fulfilled ws), w))) ws)"
    by (simp add: step closeAndRethrow_not_open)
  assume "isOpen (heap w ws)"
  then show "closeCalls (heap (snd (thenDo (expectMessage P conversion c (Some ms))
                                  (Settles t (Fulfilled ws), w))) ws)
             = closeCalls (heap w ws) @ [(None, None)]"
    by (simp add: step closeAndRethrow_def ws_close_def update_socket_def transport_close_def isOpen_def)
next
  assume "timeout = None \<or> (\<exists>n. timeout = Some n \<and> n \<le> 0)"
  then show "awaitMessage P c timeout ws t w = awaitMessage P c None ws t w"
    by (rule awaitMessage_no_timer)
next
  assume nt: "timeout = None \<or> (\<exists>n. timeout = Some n \<and> n \<le> 0)"
    and q: "messages (heap w ws) = [] \<and> closed (heap w ws) = None \<and> firstError (heap w ws) = None"
  have "fst (awaitMessage P c None ws t w) = Never"
    using q by (simp add: awaitMessage_def race_def not_before_def)
  with awaitMessage_no_timer [OF nt] have "fst (awaitMessage P c timeout ws t w) = Never" by simp
  with q show "fst (thenDo (expectMessage P conversion c timeout) (Settles t (Fulfilled ws), w)) = Never"
    by (simp add: thenDo_def expectMessage_unfold race_def not_before_def
          firstError_promise_def update_socket_def)
qed

theorem expectMessage_timeout_witness:
  "fst (thenDo (expectText sample_platform (Other (Literal (JStr ''x''))) (Some 50))
         (Settles 0 (Fulfilled 0), single idle_socket))
     = Settles 50 (Failed (nothing_arrived 50))
   \<and> closeCalls (heap (snd (thenDo (expectText sample_platform (Other (Literal (JStr ''x''))) (Some 50))
         (Settles 0 (Fulfilled 0), single idle_socket))) 0) = [(None, None)]
   \<and> fst (thenDo (expectText sample_platform (Other (Literal (JStr ''x''))) None)
         (Settles 0 (Fulfilled 0), single idle_socket)) = Never
   \<and> fst (thenDo (expectText sample_platform (Other (Literal (JStr ''x''))) (Some 0))
         (Settles 0 (Fulfilled 0), single idle_socket)) = Never"
  using expectMessage_timeout [of 50 0 "single idle_socket" 0 sample_platform msgText
      "Literal (JStr ''x'')" None]
    expectMessage_timeout [of 50 0 "single idle_socket" 0 sample_platform msgText
      "Literal (JStr ''x'')" "Some 0"]
  by (simp add: expectText_def later_than_def next_message_at_def close_event_at_def
        first_error_at_def isOpen_def single_def idle_socket_def)

text \<open>An error of the connection that arrives before the timer ends the step first.\<close>

theorem expectMessage_timeout_counterexample:
  "next_message_at erring_socket = None \<and> close_event_at erring_socket = None
   \<and> fst (thenDo (expectText sample_platform (Other (Literal (JStr ''x''))) (Some 50))
           (Settles 0 (Fulfilled 0), single erring_socket))
     = Settles 10 (Failed broken_pipe)
   \<and> broken_pipe \<noteq> nothing_arrived 50
   \<and> fst (thenDo (expectText sample_platform (Other (Literal (JStr ''x''))) None)
           (Settles 0 (Fulfilled 0), single erring_socket))
     = Settles 10 (Failed broken_pipe)"
  by (simp add: next_message_at_def close_event_at_def thenDo_def expectText_def expectMessage_def
        awaitMessage_def nothing_arrived_def samples)

section \<open>Closing every client socket\<close>

lemma ws_close_heap:
  "heap (ws_close r code reason w) x
     = (if x = r then transport_close code reason (heap w r) else heap w x)"
  by (simp add: ws_close_def update_socket_def)

lemma ws_close_registry:
  "clientSockets (ws_close r code reason w) = removeAll r (clientSockets w)"
  by (simp add: ws_close_def update_socket_def)

lemma close_each_heap:
  "distinct rs \<Longrightarrow>
     heap (foldl (\<lambda>w' ws. ws_close ws None None w') w rs) x
       = (if x \<in> set rs then transport_close None None (heap w x) else heap w x)"
proof (induction rs arbitrary: w)
  case Nil
  then show ?case by simp
next
  case (Cons r rs)
  then show ?case by (auto simp: ws_close_heap)
qed

lemma close_each_registry:
  "clientSockets w = [] \<Longrightarrow> clientSockets (foldl (\<lambda>w' ws. ws_close ws None None w') w rs) = []"
  by (induction rs arbitrary: w) (simp_all add: ws_close_registry)

text \<open>
  C9. \<^verbatim>\<open>request.closeAll\<close> on a registry without repetitions (it is a set): it
  returns the number of registered sockets that are connecting or open, calls
  \<^verbatim>\<open>close\<close> on exactly those and leaves every other socket as it was, empties the
  registry, and a second call right after returns 0.
\<close>

theorem closeAll_closes_open_sockets:
  assumes "distinct (clientSockets w)"
  shows "fst (closeAll w) = card {ws \<in> set (clientSockets w). isOpen (heap w ws)}
       \<and> (\<forall>ws. heap (snd (closeAll w)) ws
             = (if ws \<in> set (clientSockets w) \<and> isOpen (heap w ws)
                then transport_close None None (heap w ws) else heap w ws))
       \<and> clientSockets (snd (closeAll w)) = []
       \<and> fst (closeAll (snd (closeAll w))) = 0"
proof -
  let ?rs = "filter (\<lambda>ws. isOpen (heap w ws)) (clientSockets w)"
  from assms have d: "distinct ?rs" by simp
  have "card (set ?rs) = length ?rs" using d by (rule distinct_card)
  then have n: "fst (closeAll w) = card {ws \<in> set (clientSockets w). isOpen (heap w ws)}"
    by (simp add: closeAll_def Let_def)
  have h: "\<forall>ws. heap (snd (closeAll w)) ws
             = (if ws \<in> set (clientSockets w) \<and> isOpen (heap w ws)
                then transport_close None None (heap w ws) else heap w ws)"
    using close_each_heap [OF d, of "w\<lparr>clientSockets := []\<rparr>"]
    by (simp add: closeAll_def Let_def)
  have r: "clientSockets (snd (closeAll w)) = []"
    by (simp add: closeAll_def Let_def close_each_registry)
  from r have "fst (closeAll (snd (closeAll w))) = 0"
    by (simp add: closeAll_def [of "snd (closeAll w)"] Let_def)
  with n h r show ?thesis by blast
qed

theorem closeAll_closes_open_sockets_witness:
  "distinct (clientSockets trio)
   \<and> fst (closeAll trio) = 2
   \<and> map (\<lambda>ws. readyState (heap (snd (closeAll trio)) ws)) [0, 1, 2] = [CLOSING, CLOSING, CLOSING]
   \<and> map (\<lambda>ws. closeCalls (heap (snd (closeAll trio)) ws)) [0, 1, 2] = [[(None, None)], [(None, None)], []]
   \<and> clientSockets (snd (closeAll trio)) = []
   \<and> fst (closeAll (snd (closeAll trio))) = 0"
proof -
  have d: "distinct (clientSockets trio)" by (simp add: trio_def)
  have n: "fst (closeAll trio) = 2"
    by (simp add: closeAll_def trio_def isOpen_def idle_socket_def)
  from closeAll_closes_open_sockets [OF d] n show ?thesis
    by (simp add: trio_def isOpen_def idle_socket_def transport_close_def)
qed

section \<open>Sending text\<close>

lemma first_thrown_all_strings:
  "\<forall>r \<in> set rs. \<exists>s. r = Inr s \<Longrightarrow> \<exists>ss. first_thrown rs = Inr ss"
proof (induction rs)
  case Nil
  then show ?case by simp
next
  case (Cons r rs)
  then obtain s ss where "r = Inr s" "first_thrown rs = Inr ss" by auto
  then show ?case by simp
qed

lemma plain_converts: "plain v \<Longrightarrow> \<exists>text. js_String v = Inr text"
proof (induction v)
  case (JArr vs)
  have "\<forall>r \<in> set (map (\<lambda>v. if v = JUndefined \<or> v = JNull then Inr [] else js_String v) vs).
          \<exists>s. r = Inr s"
    using JArr by auto
  from first_thrown_all_strings [OF this] show ?case by auto
next
  case (JOther conversion)
  then show ?case by (cases conversion) simp_all
qed simp_all

lemma first_thrown_none: "first_thrown (map Inr ss) = Inr ss"
  by (induction ss) simp_all

lemma js_String_strings: "js_String (JArr (map JStr ss)) = Inr (join '','' ss)"
proof -
  have "map (\<lambda>v. if v = JUndefined \<or> v = JNull then Inr [] else js_String v) (map JStr ss)
          = map Inr ss"
    by simp
  then show ?thesis by (simp only: js_String.simps first_thrown_none sum.case)
qed

lemma js_String_samples:
  "js_String (JNum 42) = Inr ''42'' \<and> js_String (JNum (- 7)) = Inr ''-7''
   \<and> js_String (JBool True) = Inr ''true''
   \<and> js_String (JObj [(''a'', JNum 1)]) = Inr ''[object Object]''
   \<and> js_String (JArr [JNum 1, JNull, JStr ''b'']) = Inr ''1,,b''
   \<and> js_String (JArr [JNum 1, JObj [(''toString'', JNum 1)]]) = Inl no_primitive"
  by (simp add: number_text_def digits.simps digit_char_def)

text \<open>
  C10. \<^verbatim>\<open>sendText\<close> converts its argument with \<^verbatim>\<open>String\<close> before it sends. For
  every value whose conversion cannot throw (\<open>plain\<close>: numbers, null, undefined,
  booleans, strings, byte arrays, object literals without a \<^verbatim>\<open>toString\<close> of their
  own, arrays of such) the method returns a promise, the one of sending the string form,
  and the frame handed to the transport is that string, with no options; the string form
  of a number is its digits, of null and undefined their names, of a string itself, of an
  array of strings the strings joined by commas, of an object literal
  \<^verbatim>\<open>[object Object]\<close>. For a value whose conversion throws, \<^verbatim>\<open>sendText\<close> throws
  the same error and nothing is sent.
\<close>

theorem sendText_coerces:
  "(plain msg \<longrightarrow>
      (\<exists>text. js_String msg = Inr text
         \<and> fst (sendText msg ws now w)
             = Returns (fst (sendWithError ws (JStr text) NoOptions now w))
         \<and> sent (heap (snd (sendText msg ws now w)) ws)
             = sent (heap w ws) @ [(JStr text, NoOptions)]))
   \<and> (safe_integer n \<longrightarrow> js_String (JNum n) = Inr (number_text n))
   \<and> js_String JNull = Inr ''null''
   \<and> js_String JUndefined = Inr ''undefined''
   \<and> js_String (JStr s) = Inr s
   \<and> js_String (JArr (map JStr ss)) = Inr (join '','' ss)
   \<and> (''toString'' \<notin> set (map fst kvs) \<longrightarrow> js_String (JObj kvs) = Inr ''[object Object]'')
   \<and> (js_String msg = Inl e \<longrightarrow> sendText msg ws now w = (Throws e, w))"
proof (intro conjI impI)
  assume "plain msg"
  then obtain str where t: "js_String msg = Inr str" using plain_converts by blast
  have "fst (sendText msg ws now w) = Returns (fst (sendWithError ws (JStr str) NoOptions now w))"
    by (simp add: sendText_def t split: prod.splits)
  moreover have "sent (heap (snd (sendText msg ws now w)) ws)
                   = sent (heap w ws) @ [(JStr str, NoOptions)]"
    by (simp add: sendText_def t sendWithError_def transport_send_def update_socket_def Let_def)
  ultimately show "\<exists>str. js_String msg = Inr str
         \<and> fst (sendText msg ws now w)
             = Returns (fst (sendWithError ws (JStr str) NoOptions now w))
         \<and> sent (heap (snd (sendText msg ws now w)) ws)
             = sent (heap w ws) @ [(JStr str, NoOptions)]"
    using t by blast
next
  assume "js_String msg = Inl e"
  then show "sendText msg ws now w = (Throws e, w)" by (simp add: sendText_def)
next
  show "js_String (JArr (map JStr ss)) = Inr (join '','' ss)" by (rule js_String_strings)
qed simp_all

theorem sendText_coerces_witness:
  "fst (sendText (JNum 42) 0 0 (single idle_socket))
     = Returns (Settles 1 (Fulfilled JUndefined))
   \<and> sent (heap (snd (sendText (JNum 42) 0 0 (single idle_socket))) 0) = [(JStr ''42'', NoOptions)]
   \<and> sent (heap (snd (sendText (JArr [JNull, JObj [(''a'', JNum 1)]]) 0 0 (single idle_socket))) 0)
       = [(JStr '',[object Object]'', NoOptions)]
   \<and> sendText (JOther (Inl broken_pipe)) 0 0 (single idle_socket) = (Throws broken_pipe, single idle_socket)"
  using sendText_coerces [of "JNum 42" 0 0 "single idle_socket" 42 "[]" "[]" "[]" broken_pipe]
    sendText_coerces [of "JArr [JNull, JObj [(''a'', JNum 1)]]" 0 0 "single idle_socket" 42 "[]"
      "[]" "[]" broken_pipe]
    sendText_coerces [of "JOther (Inl broken_pipe)" 0 0 "single idle_socket" 42 "[]" "[]" "[]"
      broken_pipe]
  by (simp add: safe_integer_def number_text_def digits.simps digit_char_def sendWithError_def
        single_def idle_socket_def)

text \<open>
  \<^verbatim>\<open>sendText({toString: 1})\<close> and \<^verbatim>\<open>sendText(Object.create(null))\<close>: the
  conversion throws, so the step fails because of the type of its argument, and the
  connection stays open.
\<close>

theorem sendText_throws_counterexample:
  "sendText (JObj [(''toString'', JNum 1)]) 0 0 (single idle_socket)
     = (Throws no_primitive, single idle_socket)
   \<and> sendText (JOther (Inl no_primitive)) 0 0 (single idle_socket)
     = (Throws no_primitive, single idle_socket)
   \<and> thenDo (sendText (JObj [(''toString'', JNum 1)])) (Settles 0 (Fulfilled 0), single idle_socket)
     = (Settles 0 (Failed no_primitive), single idle_socket)
   \<and> isOpen (heap (single idle_socket) 0)"
  by (simp add: sendText_def thenDo_def single_def idle_socket_def isOpen_def)

end
